theory Spec2Isabelle
  imports Main
begin

section \<open>Strings and arrays as JavaScript has them\<close>

text \<open>
  Strings are modelled as byte strings: a JavaScript string stands for its UTF-8 encoding,
  on which splitting at an ASCII separator, escaping of ASCII characters and comparison
  agree with the operations on UTF-16 code units.
\<close>

text \<open>\<^verbatim>\<open>s.split(c)\<close> for a one-character separator: never an empty array.\<close>

primrec split :: "char \<Rightarrow> string \<Rightarrow> string list" where
  "split c [] = [[]]"
| "split c (x # xs) =
     (if x = c then [] # split c xs
      else (case split c xs of [] \<Rightarrow> [[x]] | y # ys \<Rightarrow> (x # y) # ys))"

text \<open>\<^verbatim>\<open>xs.join(sep)\<close>.\<close>

fun join :: "string \<Rightarrow> string list \<Rightarrow> string" where
  "join sep [] = []"
| "join sep [x] = x"
| "join sep (x # y # ys) = x @ sep @ join sep (y # ys)"

text \<open>Array indexing \<^verbatim>\<open>xs[i]\<close>: \<^verbatim>\<open>undefined\<close> (here \<open>None\<close>) out of range.\<close>

fun at :: "'a list \<Rightarrow> nat \<Rightarrow> 'a option" where
  "at [] i = None"
| "at (x # xs) 0 = Some x"
| "at (x # xs) (Suc i) = at xs i"

text \<open>Truthiness of a value that is a string or \<^verbatim>\<open>undefined\<close>.\<close>

fun truthy :: "string option \<Rightarrow> bool" where
  "truthy None = False"
| "truthy (Some s) = (s \<noteq> [])"

fun index_of :: "'a \<Rightarrow> 'a list \<Rightarrow> nat option" where
  "index_of a [] = None"
| "index_of a (x # xs) = (if x = a then Some 0 else map_option Suc (index_of a xs))"

section \<open>Base64\<close>

definition b64_alphabet :: string where
  "b64_alphabet = ''ABCDEFGHIJKLMNOPQRSTUVWXYZabcdefghijklmnopqrstuvwxyz0123456789+/''"

text \<open>
  Decoding as \<^verbatim>\<open>Buffer.from(s, 'base64')\<close> does it: the standard and the URL-safe
  alphabet are both accepted, a character outside them is skipped, decoding stops at the
  first \<^verbatim>\<open>=\<close>, and an incomplete last group gives the bytes it determines.
\<close>

definition unbase64 :: "char \<Rightarrow> nat option" where
  "unbase64 c =
     (if c = CHR ''-'' then Some 62 else if c = CHR ''_'' then Some 63
      else index_of c b64_alphabet)"

fun b64_sextets :: "string \<Rightarrow> nat list" where
  "b64_sextets [] = []"
| "b64_sextets (c # cs) =
     (if c = CHR ''='' then []
      else (case unbase64 c of None \<Rightarrow> b64_sextets cs | Some v \<Rightarrow> v # b64_sextets cs))"

fun b64_bytes :: "nat list \<Rightarrow> nat list" where
  "b64_bytes (a # b # c # d # r) =
     (a * 4 + b div 16) # ((b mod 16) * 16 + c div 4) # ((c mod 4) * 64 + d) # b64_bytes r"
| "b64_bytes [a, b, c] = [a * 4 + b div 16, (b mod 16) * 16 + c div 4]"
| "b64_bytes [a, b] = [a * 4 + b div 16]"
| "b64_bytes _ = []"

text \<open>\<^verbatim>\<open>Buffer.from(s, 'base64').toString()\<close>.\<close>

definition base64_toString :: "string \<Rightarrow> string" where
  "base64_toString s = map char_of (b64_bytes (b64_sextets s))"

text \<open>\<^verbatim>\<open>Buffer.from(s).toString('base64')\<close>: the standard alphabet, padded.\<close>

definition b64_char :: "nat \<Rightarrow> char" where
  "b64_char n = b64_alphabet ! (n mod 64)"

fun b64_groups :: "nat list \<Rightarrow> string" where
  "b64_groups (a # b # c # r) =
     b64_char (a div 4) # b64_char ((a mod 4) * 16 + b div 16) #
     b64_char ((b mod 16) * 4 + c div 64) # b64_char (c mod 64) # b64_groups r"
| "b64_groups [a, b] =
     [b64_char (a div 4), b64_char ((a mod 4) * 16 + b div 16),
      b64_char ((b mod 16) * 4), CHR ''='']"
| "b64_groups [a] = [b64_char (a div 4), b64_char ((a mod 4) * 16), CHR ''='', CHR ''='']"
| "b64_groups [] = []"

definition toString_base64 :: "string \<Rightarrow> string" where
  "toString_base64 s = b64_groups (map of_char s)"

section \<open>JSON values\<close>

text \<open>
  A number is the decimal \<open>mantissa \<times> 10 ^ exponent\<close>. Every finite double is one, with
  the digits that \<^verbatim>\<open>Number::toString\<close> gives it for its mantissa: as few as tell it
  from every other double, so that the mantissa does not end in a zero.
\<close>

datatype number = Number (mantissa: int) (exponent: int)


text \<open>
  A document is a JSON value. An object is the list of its members in the order of its
  properties.
\<close>

datatype json =
    JNull
  | JBool bool
  | JNum number
  | JStr string
  | JArr "json list"
  | JObj "(string \<times> json) list"

text \<open>\<^verbatim>\<open>obj[k] = v\<close> on an object: an existing property keeps its place.\<close>

primrec put :: "string \<Rightarrow> 'a \<Rightarrow> (string \<times> 'a) list \<Rightarrow> (string \<times> 'a) list" where
  "put k v [] = [(k, v)]"
| "put k v (p # ps) = (if fst p = k then (k, v) # ps else p # put k v ps)"

text \<open>\<^verbatim>\<open>value.k\<close> on a parsed JSON value that is not \<^verbatim>\<open>null\<close>.\<close>

fun member :: "json \<Rightarrow> string \<Rightarrow> json option" where
  "member (JObj kvs) k = map_of kvs k"
| "member _ k = None"

subsection \<open>Numbers in decimal and hexadecimal\<close>

definition digit_char :: "nat \<Rightarrow> char" where
  "digit_char d = ''0123456789abcdef'' ! (d mod 16)"

definition is_digit :: "char \<Rightarrow> bool" where
  "is_digit c = (c \<in> set ''0123456789'')"

definition digit_val :: "char \<Rightarrow> nat" where
  "digit_val c = (case index_of c ''0123456789'' of Some d \<Rightarrow> d | None \<Rightarrow> 0)"

fun show_nat :: "nat \<Rightarrow> string" where
  "show_nat n = (if n < 10 then [digit_char n] else show_nat (n div 10) @ [digit_char (n mod 10)])"

declare show_nat.simps [simp del]

definition show_exponent :: "int \<Rightarrow> string" where
  "show_exponent e = (if e < 0 then CHR ''-'' else CHR ''+'') # show_nat (nat \<bar>e\<bar>)"

text \<open>
  \<^verbatim>\<open>Number::toString\<close> for the digits \<open>ds\<close> of a positive mantissa and the number
  \<open>n\<close> of digits that stand before the decimal point.
\<close>

definition show_digits :: "string \<Rightarrow> int \<Rightarrow> string" where
  "show_digits ds n =
     (let k = int (length ds) in
      if k \<le> n \<and> n \<le> 21 then ds @ replicate (nat (n - k)) CHR ''0''
      else if 0 < n \<and> n \<le> 21 then take (nat n) ds @ ''.'' @ drop (nat n) ds
      else if - 6 < n \<and> n \<le> 0 then ''0.'' @ replicate (nat (- n)) CHR ''0'' @ ds
      else if k = 1 then ds @ ''e'' @ show_exponent (n - 1)
      else [hd ds] @ ''.'' @ tl ds @ ''e'' @ show_exponent (n - 1))"

definition number_toString :: "number \<Rightarrow> string" where
  "number_toString x =
     (if mantissa x = 0 then ''0''
      else
        let ds = show_nat (nat \<bar>mantissa x\<bar>) in
        (if mantissa x < 0 then ''-'' else []) @ show_digits ds (int (length ds) + exponent x))"

definition read_nat :: "string \<Rightarrow> nat" where
  "read_nat ds = foldl (\<lambda>n c. 10 * n + digit_val c) 0 ds"

definition hex_val :: "char \<Rightarrow> nat option" where
  "hex_val c =
     (case index_of c ''0123456789abcdef'' of Some d \<Rightarrow> Some d
      | None \<Rightarrow> map_option (\<lambda>d. d + 10) (index_of c ''ABCDEF''))"

fun read_hex :: "nat \<Rightarrow> string \<Rightarrow> nat option" where
  "read_hex acc [] = Some acc"
| "read_hex acc (c # cs) =
     (case hex_val c of None \<Rightarrow> None | Some d \<Rightarrow> read_hex (16 * acc + d) cs)"

subsection \<open>\<^verbatim>\<open>JSON.stringify\<close>\<close>

text \<open>
  \<^verbatim>\<open>QuoteJSONString\<close>: the quotation mark, the backslash and the control characters
  are escaped, every other character stands for itself.
\<close>

definition escape :: "char \<Rightarrow> string" where
  "escape c =
     (if c = CHR 0x22 then [CHR 0x5C, CHR 0x22]
      else if c = CHR 0x5C then [CHR 0x5C, CHR 0x5C]
      else if c = CHR 0x08 then [CHR 0x5C, CHR ''b'']
      else if c = CHR 0x09 then [CHR 0x5C, CHR ''t'']
      else if c = CHR 0x0A then [CHR 0x5C, CHR ''n'']
      else if c = CHR 0x0C then [CHR 0x5C, CHR ''f'']
      else if c = CHR 0x0D then [CHR 0x5C, CHR ''r'']
      else if of_char c < (0x20 :: nat)
        then [CHR 0x5C, CHR ''u'', CHR ''0'', CHR ''0'',
              digit_char (of_char c div 16), digit_char (of_char c mod 16)]
      else [c])"

definition quote :: "string \<Rightarrow> string" where
  "quote s = CHR 0x22 # concat (map escape s) @ [CHR 0x22]"

text \<open>
  \<^verbatim>\<open>SerializeJSONProperty\<close> with its \<^verbatim>\<open>gap\<close> and current \<^verbatim>\<open>indent\<close>: with an
  empty gap the members follow each other after a comma, otherwise each stands on a line
  of its own, indented by one more gap than the enclosing bracket.
\<close>

fun serialize :: "string \<Rightarrow> string \<Rightarrow> json \<Rightarrow> string" where
  "serialize gap indent JNull = ''null''"
| "serialize gap indent (JBool b) = (if b then ''true'' else ''false'')"
| "serialize gap indent (JNum x) = number_toString x"
| "serialize gap indent (JStr s) = quote s"
| "serialize gap indent (JArr xs) =
     (if xs = [] then ''[]''
      else if gap = [] then ''['' @ join '','' (map (serialize gap (indent @ gap)) xs) @ '']''
      else ''['' @ [CHR 0x0A] @ (indent @ gap) @
           join ('','' @ [CHR 0x0A] @ (indent @ gap)) (map (serialize gap (indent @ gap)) xs) @
           [CHR 0x0A] @ indent @ '']'')"
| "serialize gap indent (JObj kvs) =
     (if kvs = [] then ''{}''
      else if gap = [] then
        ''{'' @ join '','' (map (\<lambda>(k, v). quote k @ '':'' @ serialize gap (indent @ gap) v) kvs) @ ''}''
      else ''{'' @ [CHR 0x0A] @ (indent @ gap) @
           join ('','' @ [CHR 0x0A] @ (indent @ gap))
             (map (\<lambda>(k, v). quote k @ '': '' @ serialize gap (indent @ gap) v) kvs) @
           [CHR 0x0A] @ indent @ ''}'')"

text \<open>
  \<^verbatim>\<open>JSON.stringify(value, null, 2)\<close> and \<^verbatim>\<open>JSON.stringify(value)\<close>; the value
  \<^verbatim>\<open>undefined\<close> (\<open>None\<close>) gives \<^verbatim>\<open>undefined\<close>, not a string.
\<close>

definition stringify_pretty :: "json option \<Rightarrow> string option" where
  "stringify_pretty payload = map_option (serialize ''  '' []) payload"

definition stringify :: "json \<Rightarrow> string" where
  "stringify v = serialize [] [] v"

subsection \<open>\<^verbatim>\<open>JSON.parse\<close>\<close>

definition is_ws :: "char \<Rightarrow> bool" where
  "is_ws c = (c = CHR '' '' \<or> c = CHR 0x0A \<or> c = CHR 0x0D \<or> c = CHR 0x09)"

definition skip_ws :: "string \<Rightarrow> string" where
  "skip_ws s = dropWhile is_ws s"

text \<open>The character a one-letter escape stands for.\<close>

definition unescape :: "char \<Rightarrow> char option" where
  "unescape e =
     (if e = CHR 0x22 then Some (CHR 0x22)
      else if e = CHR 0x5C then Some (CHR 0x5C)
      else if e = CHR ''/'' then Some (CHR ''/'')
      else if e = CHR ''b'' then Some (CHR 0x08)
      else if e = CHR ''f'' then Some (CHR 0x0C)
      else if e = CHR ''n'' then Some (CHR 0x0A)
      else if e = CHR ''r'' then Some (CHR 0x0D)
      else if e = CHR ''t'' then Some (CHR 0x09)
      else None)"

text \<open>
  The bytes of the code unit a \<^verbatim>\<open>\uXXXX\<close> escape names (two escapes that form a
  surrogate pair are not joined).
\<close>

definition utf8 :: "nat \<Rightarrow> string" where
  "utf8 n =
     (if n < 0x80 then [char_of n]
      else if n < 0x800 then [char_of (0xC0 + n div 64), char_of (0x80 + n mod 64)]
      else [char_of (0xE0 + n div 4096), char_of (0x80 + (n div 64) mod 64),
            char_of (0x80 + n mod 64)])"

text \<open>The characters of a string literal after its opening quotation mark.\<close>

fun parse_chars :: "string \<Rightarrow> (string \<times> string) option" where
  "parse_chars [] = None"
| "parse_chars (c # cs) =
     (if c = CHR 0x22 then Some ([], cs)
      else if c = CHR 0x5C then
        (case cs of
           [] \<Rightarrow> None
         | e # r \<Rightarrow>
             if e = CHR ''u'' then
               (if length r < 4 then None
                else (case read_hex 0 (take 4 r) of
                        None \<Rightarrow> None
                      | Some n \<Rightarrow>
                          map_option (\<lambda>(x, t). (utf8 n @ x, t)) (parse_chars (drop 4 r))))
             else (case unescape e of
                     None \<Rightarrow> None
                   | Some x \<Rightarrow> map_option (\<lambda>(y, t). (x # y, t)) (parse_chars r)))
      else if of_char c < (0x20 :: nat) then None
      else map_option (\<lambda>(x, t). (c # x, t)) (parse_chars cs))"

text \<open>The mantissa without its zeros at the end.\<close>

function strip_zeros :: "nat \<Rightarrow> int \<Rightarrow> nat \<times> int" where
  "strip_zeros m e = (if m \<noteq> 0 \<and> m mod 10 = 0 then strip_zeros (m div 10) (e + 1) else (m, e))"
  by pat_completeness auto
termination
  by (relation "measure fst") auto

declare strip_zeros.simps [simp del]

definition decimal :: "bool \<Rightarrow> nat \<Rightarrow> int \<Rightarrow> number" where
  "decimal neg m e =
     (if m = 0 then Number 0 0
      else case strip_zeros m e of (s, e') \<Rightarrow> Number (if neg then - int s else int s) e')"

text \<open>The fraction of a number literal, if it has one: a point and at least one digit.\<close>

definition fraction :: "string \<Rightarrow> (string \<times> string) option" where
  "fraction r =
     (case r of
        [] \<Rightarrow> Some ([], [])
      | c # cs \<Rightarrow>
          if c = CHR ''.'' then
            (if takeWhile is_digit cs = [] then None
             else Some (takeWhile is_digit cs, dropWhile is_digit cs))
          else Some ([], r))"

text \<open>The exponent of a number literal, if it has one: an \<^verbatim>\<open>e\<close>, a sign or none, digits.\<close>

definition exponent_part :: "string \<Rightarrow> (int \<times> string) option" where
  "exponent_part r =
     (case r of
        [] \<Rightarrow> Some (0, [])
      | c # cs \<Rightarrow>
          if c = CHR ''e'' \<or> c = CHR ''E'' then
            (let neg = (case cs of [] \<Rightarrow> False | d # _ \<Rightarrow> d = CHR ''-'');
                 signed = (case cs of [] \<Rightarrow> False | d # _ \<Rightarrow> d = CHR ''-'' \<or> d = CHR ''+'');
                 t = (if signed then tl cs else cs)
             in if takeWhile is_digit t = [] then None
                else Some (if neg then - int (read_nat (takeWhile is_digit t))
                           else int (read_nat (takeWhile is_digit t)),
                           dropWhile is_digit t))
          else Some (0, r))"

text \<open>
  A number literal after its sign: the digits of an integer without a leading zero, a
  fraction and an exponent. The literal is read exactly, as the decimal it writes.
\<close>

definition unsigned :: "bool \<Rightarrow> string \<Rightarrow> (number \<times> string) option" where
  "unsigned neg t =
     (let ds = takeWhile is_digit t
      in if ds = [] then None
         else if 1 < length ds \<and> hd ds = CHR ''0'' then None
         else
           (case fraction (dropWhile is_digit t) of
              None \<Rightarrow> None
            | Some (fs, r) \<Rightarrow>
                (case exponent_part r of
                   None \<Rightarrow> None
                 | Some (e, r') \<Rightarrow>
                     Some (decimal neg (read_nat (ds @ fs)) (e - int (length fs)), r'))))"

definition parse_number :: "string \<Rightarrow> (number \<times> string) option" where
  "parse_number s =
     (case s of
        [] \<Rightarrow> None
      | c # cs \<Rightarrow> if c = CHR ''-'' then unsigned True cs else unsigned False s)"

text \<open>
  The value at the head of a text and the text left after it. The first argument bounds
  the calls that read one value, one element or one member; \<open>JSON_parse\<close> below starts
  with one more than the length of the text, and \<open>JSON_parse_serialize\<close> shows that this
  is enough for every text the serializer writes.
\<close>

fun parse_value :: "nat \<Rightarrow> string \<Rightarrow> (json \<times> string) option"
  and parse_elements :: "nat \<Rightarrow> string \<Rightarrow> (json list \<times> string) option"
  and parse_members :: "nat \<Rightarrow> string \<Rightarrow> ((string \<times> json) list \<times> string) option"
where
  "parse_value 0 s = None"
| "parse_value (Suc n) s =
     (case s of
        [] \<Rightarrow> None
      | c # cs \<Rightarrow>
          if c = CHR ''['' then
            (case skip_ws cs of
               [] \<Rightarrow> None
             | d # ds \<Rightarrow>
                 if d = CHR '']'' then Some (JArr [], ds)
                 else map_option (\<lambda>(xs, r). (JArr xs, r)) (parse_elements n (d # ds)))
          else if c = CHR ''{'' then
            (case skip_ws cs of
               [] \<Rightarrow> None
             | d # ds \<Rightarrow>
                 if d = CHR ''}'' then Some (JObj [], ds)
                 else map_option (\<lambda>(ms, r). (JObj (foldl (\<lambda>obj (k, v). put k v obj) [] ms), r))
                        (parse_members n (d # ds)))
          else if c = CHR 0x22 then map_option (\<lambda>(x, r). (JStr x, r)) (parse_chars cs)
          else if take 4 s = ''null'' then Some (JNull, drop 4 s)
          else if take 4 s = ''true'' then Some (JBool True, drop 4 s)
          else if take 5 s = ''false'' then Some (JBool False, drop 5 s)
          else map_option (\<lambda>(x, r). (JNum x, r)) (parse_number s))"
| "parse_elements 0 s = None"
| "parse_elements (Suc n) s =
     (case parse_value n s of
        None \<Rightarrow> None
      | Some (v, r) \<Rightarrow>
          (case skip_ws r of
             [] \<Rightarrow> None
           | d # ds \<Rightarrow>
               if d = CHR '','' then
                 map_option (\<lambda>(vs, t). (v # vs, t)) (parse_elements n (skip_ws ds))
               else if d = CHR '']'' then Some ([v], ds)
               else None))"
| "parse_members 0 s = None"
| "parse_members (Suc n) s =
     (case s of
        [] \<Rightarrow> None
      | c # cs \<Rightarrow>
          if c = CHR 0x22 then
            (case parse_chars cs of
               None \<Rightarrow> None
             | Some (k, r) \<Rightarrow>
                 (case skip_ws r of
                    [] \<Rightarrow> None
                  | d # ds \<Rightarrow>
                      if d = CHR '':'' then
                        (case parse_value n (skip_ws ds) of
                           None \<Rightarrow> None
                         | Some (v, r') \<Rightarrow>
                             (case skip_ws r' of
                                [] \<Rightarrow> None
                              | e # es \<Rightarrow>
                                  if e = CHR '','' then
                                    map_option (\<lambda>(ms, t). ((k, v) # ms, t))
                                      (parse_members n (skip_ws es))
                                  else if e = CHR ''}'' then Some ([(k, v)], es)
                                  else None))
                      else None))
          else None)"

text \<open>
  \<^verbatim>\<open>JSON.parse(text)\<close>: the one value of the text, with white space around it, or
  the failure a \<^verbatim>\<open>SyntaxError\<close> reports.
\<close>

definition JSON_parse :: "string \<Rightarrow> json option" where
  "JSON_parse s =
     (case parse_value (Suc (length s)) (skip_ws s) of
        None \<Rightarrow> None
      | Some (v, r) \<Rightarrow> if skip_ws r = [] then Some v else None)"

section \<open>Configuration, page keys and the outside world\<close>

datatype page_key = Home | Services | Products | GetStarted | Contact

definition PAGE_KEYS :: "page_key list" where
  "PAGE_KEYS = [Home, Services, Products, GetStarted, Contact]"

fun page_name :: "page_key \<Rightarrow> string" where
  "page_name Home = ''home''"
| "page_name Services = ''services''"
| "page_name Products = ''products''"
| "page_name GetStarted = ''get-started''"
| "page_name Contact = ''contact''"

text \<open>The member of \<open>PAGE_KEYS\<close> a string is, if it is one.\<close>

definition page_of :: "string \<Rightarrow> page_key option" where
  "page_of s = find (\<lambda>p. page_name p = s) PAGE_KEYS"

fun GITHUB_FILE_PATHS :: "page_key \<Rightarrow> string" where
  "GITHUB_FILE_PATHS Home = ''public/config/home.json''"
| "GITHUB_FILE_PATHS Services = ''public/config/services.json''"
| "GITHUB_FILE_PATHS Products = ''public/config/products.json''"
| "GITHUB_FILE_PATHS GetStarted = ''public/config/get-started.json''"
| "GITHUB_FILE_PATHS Contact = ''public/config/contact.json''"

text \<open>The constants the module reads from the environment when it is loaded.\<close>

record env =
  ADMIN_CREDENTIALS :: "string \<rightharpoonup> string"
  CONFIG_FOLDER :: string
  GITHUB_TOKEN :: "string option"
  GITHUB_OWNER :: "string option"
  GITHUB_REPO :: "string option"
  GITHUB_BRANCH :: string

text \<open>An exception: an \<^verbatim>\<open>Error\<close> object, of whatever class, with its message.\<close>

datatype js_error = Error string

fun message :: "js_error \<Rightarrow> string" where
  "message (Error m) = m"

record fetch_request =
  req_method :: string
  req_url :: string
  req_headers :: "(string \<times> string) list"
  req_body :: "string option"

record fetch_response =
  res_status :: nat
  res_text :: string

definition ok :: "fetch_response \<Rightarrow> bool" where
  "ok r = (200 \<le> res_status r \<and> res_status r \<le> 299)"

text \<open>What reaches the file system or the network, in the order it happens.\<close>

datatype effect =
    Mkdir string
  | ReadFile string
  | WriteFile string string
  | Fetch fetch_request

text \<open>
  The world of a request: the files of the disk, the failure (if any) each operation on
  the file system meets and the answer each request to the network gets, both of which
  may change from one operation to the next, the parts of the platform the model leaves
  open, and the log of the effects so far.
\<close>

record world =
  files :: "string \<rightharpoonup> string"
  mkdir_fault :: "nat \<Rightarrow> string \<Rightarrow> js_error option"
  read_fault :: "nat \<Rightarrow> string \<Rightarrow> js_error option"
  write_fault :: "nat \<Rightarrow> string \<Rightarrow> js_error option"
  remote :: "nat \<Rightarrow> fetch_request \<Rightarrow> js_error + fetch_response"
  syntax_error :: "string \<Rightarrow> js_error"
  buffer_from :: "json option \<Rightarrow> js_error + string"
  log :: "effect list"

text \<open>
  An asynchronous operation, awaited: it takes the world as it is and gives the value it
  resolves to, or the error it rejects with, and the world as it has become.
\<close>

type_synonym 'a io = "world \<Rightarrow> (js_error + 'a) \<times> world"

definition succeed :: "'a \<Rightarrow> 'a io" where
  "succeed x w = (Inr x, w)"

definition throw :: "js_error \<Rightarrow> 'a io" where
  "throw err w = (Inl err, w)"

text \<open>One statement after another: an error of the first skips the second.\<close>

definition and_then :: "'a io \<Rightarrow> ('a \<Rightarrow> 'b io) \<Rightarrow> 'b io" where
  "and_then f g w = (case f w of (Inl err, w') \<Rightarrow> (Inl err, w') | (Inr x, w') \<Rightarrow> g x w')"

text \<open>\<^verbatim>\<open>try { f } catch (err) { h }\<close> and \<^verbatim>\<open>f.catch(h)\<close>.\<close>

definition catch :: "'a io \<Rightarrow> (js_error \<Rightarrow> 'a io) \<Rightarrow> 'a io" where
  "catch f h w = (case f w of (Inl err, w') \<Rightarrow> h err w' | (Inr x, w') \<Rightarrow> (Inr x, w'))"

definition clock :: "world \<Rightarrow> nat" where
  "clock w = length (log w)"

definition record_effect :: "effect \<Rightarrow> world \<Rightarrow> world" where
  "record_effect e w = w\<lparr>log := log w @ [e]\<rparr>"

text \<open>\<^verbatim>\<open>fs.promises.mkdir(dir, { recursive: true })\<close>.\<close>

definition mkdir :: "string \<Rightarrow> unit io" where
  "mkdir dir w =
     (case mkdir_fault w (clock w) dir of
        Some e \<Rightarrow> (Inl e, record_effect (Mkdir dir) w)
      | None \<Rightarrow> (Inr (), record_effect (Mkdir dir) w))"

definition enoent :: "string \<Rightarrow> js_error" where
  "enoent path =
     Error (''ENOENT: no such file or directory, open '' @ [CHR 0x27] @ path @ [CHR 0x27])"

text \<open>\<^verbatim>\<open>fs.promises.readFile(path, 'utf8')\<close>.\<close>

definition readFile :: "string \<Rightarrow> string io" where
  "readFile path w =
     (case read_fault w (clock w) path of
        Some e \<Rightarrow> (Inl e, record_effect (ReadFile path) w)
      | None \<Rightarrow>
          (case files w path of
             None \<Rightarrow> (Inl (enoent path), record_effect (ReadFile path) w)
           | Some raw \<Rightarrow> (Inr raw, record_effect (ReadFile path) w)))"

definition invalid_data :: js_error where
  "invalid_data =
     Error (''The '' @ [CHR 0x22] @ ''data'' @ [CHR 0x22] @
       '' argument must be of type string or an instance of Buffer, TypedArray, or DataView. Received undefined'')"

text \<open>
  \<^verbatim>\<open>fs.promises.writeFile(path, data, 'utf8')\<close>: data that is \<^verbatim>\<open>undefined\<close> is
  refused before the file is opened; a write that fails leaves the file as it was.
\<close>

definition writeFile :: "string \<Rightarrow> string option \<Rightarrow> unit io" where
  "writeFile path data w =
     (case data of
        None \<Rightarrow> (Inl invalid_data, w)
      | Some text \<Rightarrow>
          (case write_fault w (clock w) path of
             Some e \<Rightarrow> (Inl e, record_effect (WriteFile path text) w)
           | None \<Rightarrow>
               (Inr (), record_effect (WriteFile path text) (w\<lparr>files := (files w)(path \<mapsto> text)\<rparr>))))"

text \<open>\<^verbatim>\<open>fetch(url, init)\<close>.\<close>

definition fetch :: "fetch_request \<Rightarrow> fetch_response io" where
  "fetch req w = (remote w (clock w) req, record_effect (Fetch req) w)"

text \<open>\<^verbatim>\<open>JSON.parse\<close> raising its \<^verbatim>\<open>SyntaxError\<close>.\<close>

definition parse_or_throw :: "string \<Rightarrow> json io" where
  "parse_or_throw raw w =
     (case JSON_parse raw of None \<Rightarrow> (Inl (syntax_error w raw), w) | Some v \<Rightarrow> (Inr v, w))"

section \<open>The Local Config Store\<close>

text \<open>\<^verbatim>\<open>path.join(dir, name)\<close> for a plain file name (the directory is not normalised).\<close>

definition path_join :: "string \<Rightarrow> string \<Rightarrow> string" where
  "path_join dir name = dir @ ''/'' @ name"

definition getConfigPath :: "env \<Rightarrow> page_key \<Rightarrow> string" where
  "getConfigPath e page = path_join (CONFIG_FOLDER e) (page_name page @ ''.json'')"

definition ensureConfigDir :: "env \<Rightarrow> unit io" where
  "ensureConfigDir e w = mkdir (CONFIG_FOLDER e) w"

definition readFromDisk :: "env \<Rightarrow> page_key \<Rightarrow> json io" where
  "readFromDisk e page =
     and_then (readFile (getConfigPath e page)) (\<lambda>raw. parse_or_throw raw)"

definition writeToDisk :: "env \<Rightarrow> page_key \<Rightarrow> json option \<Rightarrow> unit io" where
  "writeToDisk e page payload =
     and_then (ensureConfigDir e)
       (\<lambda>_. writeFile (getConfigPath e page) (stringify_pretty payload))"

section \<open>The Remote Config Store\<close>

text \<open>
  \<^verbatim>\<open>encodeURIComponent\<close>: the unreserved characters stand for themselves, every other
  byte is written in hexadecimal after a percent sign.
\<close>

definition hex_upper :: "nat \<Rightarrow> char" where
  "hex_upper d = ''0123456789ABCDEF'' ! (d mod 16)"

definition unreserved :: "char \<Rightarrow> bool" where
  "unreserved c =
     (c \<in> set ''ABCDEFGHIJKLMNOPQRSTUVWXYZabcdefghijklmnopqrstuvwxyz0123456789'' \<or>
      c \<in> set ''-_.!~*()'' \<or> c = CHR 0x27)"

definition encodeURIComponent :: "string \<Rightarrow> string" where
  "encodeURIComponent s =
     concat (map (\<lambda>c. if unreserved c then [c]
                       else [CHR ''%'', hex_upper (of_char c div 16), hex_upper (of_char c mod 16)]) s)"

definition encodeGitHubPath :: "string \<Rightarrow> string" where
  "encodeGitHubPath input = join ''/'' (map encodeURIComponent (split CHR ''/'' input))"

text \<open>A value that is a string or \<^verbatim>\<open>undefined\<close>, inside a template literal.\<close>

fun template :: "string option \<Rightarrow> string" where
  "template None = ''undefined''"
| "template (Some s) = s"

definition github_configured :: "env \<Rightarrow> bool" where
  "github_configured e =
     (truthy (GITHUB_TOKEN e) \<and> truthy (GITHUB_OWNER e) \<and> truthy (GITHUB_REPO e))"

definition contents_url :: "env \<Rightarrow> page_key \<Rightarrow> string" where
  "contents_url e page =
     ''https://api.github.com/repos/'' @ template (GITHUB_OWNER e) @ ''/'' @
     template (GITHUB_REPO e) @ ''/contents/'' @ encodeGitHubPath (GITHUB_FILE_PATHS page)"

definition null_content :: js_error where
  "null_content =
     Error (''Cannot read properties of null (reading '' @ [CHR 0x27] @ ''content'' @ [CHR 0x27] @ '')'')"

text \<open>\<^verbatim>\<open>body.content\<close>: reading a property of \<^verbatim>\<open>null\<close> throws.\<close>

definition content_of :: "json \<Rightarrow> json option io" where
  "content_of body = (if body = JNull then throw null_content else succeed (member body ''content''))"

text \<open>
  \<^verbatim>\<open>Buffer.from(value, 'base64').toString('utf8')\<close>: for a value that is not a
  string, what the platform does.
\<close>

definition decode_content :: "json option \<Rightarrow> string io" where
  "decode_content v w =
     (case v of Some (JStr c) \<Rightarrow> (Inr (base64_toString c), w) | _ \<Rightarrow> (buffer_from w v, w))"

definition readFromGitHub :: "env \<Rightarrow> page_key \<Rightarrow> json io" where
  "readFromGitHub e page =
     (if \<not> github_configured e then throw (Error ''GitHub variables missing'')
      else
        and_then
          (fetch \<lparr>req_method = ''GET'',
                  req_url = contents_url e page @ ''?ref='' @ GITHUB_BRANCH e,
                  req_headers =
                    [(''Authorization'', ''Bearer '' @ template (GITHUB_TOKEN e)),
                     (''Accept'', ''application/vnd.github+json'')],
                  req_body = None\<rparr>)
          (\<lambda>response.
             if \<not> ok response
             then throw (Error (''GitHub read failed: '' @ show_nat (res_status response)))
             else
               and_then (parse_or_throw (res_text response)) (\<lambda>body.
               and_then (content_of body) (\<lambda>content.
               and_then (decode_content content) (\<lambda>decoded.
               parse_or_throw decoded)))))"

definition invalid_first_argument :: js_error where
  "invalid_first_argument =
     Error (''The first argument must be of type string or an instance of Buffer, ArrayBuffer, or Array or an Array-like Object. Received undefined'')"

text \<open>\<^verbatim>\<open>Buffer.from(text).toString('base64')\<close>, which throws when there is no text.\<close>

definition encode_content :: "string option \<Rightarrow> string io" where
  "encode_content text =
     (case text of None \<Rightarrow> throw invalid_first_argument | Some t \<Rightarrow> succeed (toString_base64 t))"

text \<open>\<^verbatim>\<open>data?.sha\<close>.\<close>

definition sha_of :: "json \<Rightarrow> json option" where
  "sha_of data = (if data = JNull then None else member data ''sha'')"

text \<open>
  The object the PUT sends, as \<^verbatim>\<open>JSON.stringify\<close> sees it: a property whose value is
  \<^verbatim>\<open>undefined\<close> is left out.
\<close>

definition commit_body :: "string \<Rightarrow> string \<Rightarrow> string \<Rightarrow> json option \<Rightarrow> json" where
  "commit_body msg content64 branch sha =
     JObj ([(''message'', JStr msg), (''content'', JStr content64), (''branch'', JStr branch)] @
           (case sha of None \<Rightarrow> [] | Some v \<Rightarrow> [(''sha'', v)]))"

definition commit_headers :: "env \<Rightarrow> (string \<times> string) list" where
  "commit_headers e =
     [(''Authorization'', ''Bearer '' @ template (GITHUB_TOKEN e)),
      (''Content-Type'', ''application/json''),
      (''Accept'', ''application/vnd.github+json'')]"

definition commitToGitHub :: "env \<Rightarrow> page_key \<Rightarrow> json option \<Rightarrow> string option \<Rightarrow> unit io" where
  "commitToGitHub e page payload msg =
     (if \<not> github_configured e then throw (Error ''GitHub environment variables missing'')
      else
        and_then
          (fetch \<lparr>req_method = ''GET'',
                  req_url = contents_url e page @ ''?ref='' @ GITHUB_BRANCH e,
                  req_headers = commit_headers e, req_body = None\<rparr>)
          (\<lambda>getResponse.
        and_then
          (if ok getResponse
           then and_then (parse_or_throw (res_text getResponse)) (\<lambda>data. succeed (sha_of data))
           else succeed None)
          (\<lambda>sha.
        and_then (encode_content (stringify_pretty payload)) (\<lambda>content64.
        and_then
          (fetch \<lparr>req_method = ''PUT'', req_url = contents_url e page,
                  req_headers = commit_headers e,
                  req_body = Some (stringify (commit_body
                    (if truthy msg then the msg else ''Update '' @ page_name page @ '' config'')
                    content64 (GITHUB_BRANCH e) sha))\<rparr>)
          (\<lambda>putResponse.
             if \<not> ok putResponse
             then throw (Error (''GitHub commit failed: '' @ show_nat (res_status putResponse) @
                          '' '' @ res_text putResponse))
             else succeed ())))))"

section \<open>The request body schema\<close>

text \<open>
  A validation issue, by the path of the field it is about (empty for the body as a
  whole); the library's wording of the issue is not modelled.
\<close>

datatype zod_issue = Issue (path: "string list")

record update =
  content :: "json option"
  commit :: bool
  commitMessage :: "string option"
  file_key :: page_key

text \<open>
  The four fields of \<open>updateSchema\<close>, each applied to the property of its name
  (\<open>None\<close> when the body has none): \<^verbatim>\<open>z.any()\<close> accepts whatever is there, also
  nothing at all.
\<close>

definition content_field :: "json option \<Rightarrow> zod_issue list + json option" where
  "content_field v = Inr v"

fun commit_field :: "json option \<Rightarrow> zod_issue list + bool" where
  "commit_field None = Inr False"
| "commit_field (Some (JBool b)) = Inr b"
| "commit_field (Some _) = Inl [Issue [''commit'']]"

fun commitMessage_field :: "json option \<Rightarrow> zod_issue list + string option" where
  "commitMessage_field None = Inr None"
| "commitMessage_field (Some (JStr s)) = Inr (Some s)"
| "commitMessage_field (Some _) = Inl [Issue [''commitMessage'']]"

fun file_field :: "json option \<Rightarrow> zod_issue list + page_key" where
  "file_field None = Inr Home"
| "file_field (Some (JStr s)) =
     (case page_of s of Some p \<Rightarrow> Inr p | None \<Rightarrow> Inl [Issue [''file'']])"
| "file_field (Some _) = Inl [Issue [''file'']]"

fun issues_of :: "zod_issue list + 'a \<Rightarrow> zod_issue list" where
  "issues_of (Inl is) = is"
| "issues_of (Inr _) = []"

text \<open>\<^verbatim>\<open>updateSchema.parse(data)\<close>: the parsed body, or the issues of a \<^verbatim>\<open>ZodError\<close>.\<close>

definition updateSchema_parse :: "json \<Rightarrow> zod_issue list + update" where
  "updateSchema_parse data =
     (case data of
        JObj kvs \<Rightarrow>
          (case (content_field (map_of kvs ''content''), commit_field (map_of kvs ''commit''),
                 commitMessage_field (map_of kvs ''commitMessage''),
                 file_field (map_of kvs ''file'')) of
             (Inr c, Inr b, Inr m, Inr f) \<Rightarrow>
               Inr \<lparr>content = c, commit = b, commitMessage = m, file_key = f\<rparr>
           | (c, b, m, f) \<Rightarrow> Inl (issues_of c @ issues_of b @ issues_of m @ issues_of f))
      | _ \<Rightarrow> Inl [Issue []])"

text \<open>\<^verbatim>\<open>error.flatten()\<close>.\<close>

record flattened =
  formErrors :: "zod_issue list"
  fieldErrors :: "(string \<times> zod_issue list) list"

definition flatten :: "zod_issue list \<Rightarrow> flattened" where
  "flatten issues =
     \<lparr>formErrors = filter (\<lambda>i. path i = []) issues,
      fieldErrors =
        foldl (\<lambda>acc i. case path i of
                          [] \<Rightarrow> acc
                        | f # _ \<Rightarrow> put f ((case map_of acc f of None \<Rightarrow> [] | Some is \<Rightarrow> is) @ [i]) acc)
          [] issues\<rparr>"

section \<open>The Auth Guard\<close>

text \<open>What a middleware or a handler does with a request.\<close>

datatype 'b outcome = Next | Respond nat 'b

text \<open>
  A property read \<^verbatim>\<open>obj[key]\<close> on the credentials object gives the own property when
  there is one, a member of \<^verbatim>\<open>Object.prototype\<close> for the names it defines, and
  \<^verbatim>\<open>undefined\<close> otherwise.
\<close>

datatype js_value = Undefined | Str string | Inherited

definition object_prototype_keys :: "string list" where
  "object_prototype_keys =
     [''constructor'', ''__defineGetter__'', ''__defineSetter__'', ''hasOwnProperty'',
      ''__lookupGetter__'', ''__lookupSetter__'', ''isPrototypeOf'',
      ''propertyIsEnumerable'', ''toString'', ''valueOf'', ''__proto__'',
      ''toLocaleString'']"

definition property :: "(string \<rightharpoonup> string) \<Rightarrow> string \<Rightarrow> js_value" where
  "property obj key =
     (case obj key of Some v \<Rightarrow> Str v
      | None \<Rightarrow> if key \<in> set object_prototype_keys then Inherited else Undefined)"

fun js_string :: "string option \<Rightarrow> js_value" where
  "js_string None = Undefined"
| "js_string (Some s) = Str s"

text \<open>A property key that is \<^verbatim>\<open>undefined\<close> is the string \<^verbatim>\<open>"undefined"\<close>.\<close>

fun property_key :: "string option \<Rightarrow> string" where
  "property_key None = ''undefined''"
| "property_key (Some s) = s"

text \<open>
  The bodies the router sends: \<^verbatim>\<open>{ error: message }\<close>,
  \<^verbatim>\<open>{ error: error.flatten() }\<close>, \<^verbatim>\<open>{ config: data }\<close> and
  \<^verbatim>\<open>{ ok: true, committed: flag }\<close>.
\<close>

datatype body =
    ErrorBody string
  | ValidationBody flattened
  | ConfigBody json
  | OkBody bool

definition authGuard :: "env \<Rightarrow> string option \<Rightarrow> body outcome" where
  "authGuard e authorization =
     (let header = (if truthy authorization then the authorization else []);
          scheme = at (split CHR '' '' header) 0;
          encoded = at (split CHR '' '' header) 1
      in if scheme \<noteq> Some ''Basic'' \<or> \<not> truthy encoded
         then Respond 401 (ErrorBody ''Unauthorized'')
         else
           let decoded = base64_toString (the encoded);
               user = at (split CHR '':'' decoded) 0;
               pass = at (split CHR '':'' decoded) 1
           in if property (ADMIN_CREDENTIALS e) (property_key user) = js_string pass
              then Next
              else Respond 401 (ErrorBody ''Unauthorized''))"

section \<open>The router\<close>

text \<open>
  The value of \<^verbatim>\<open>req.query.file\<close>: absent, a string, or an array or object (which is
  truthy and equal to no page key).
\<close>

datatype query = QUndefined | QString string | QOther

record request =
  authorization :: "string option"
  query_file :: query
  json_body :: "json option"

text \<open>\<^verbatim>\<open>error?.message || fallback\<close>.\<close>

definition message_or :: "string \<Rightarrow> js_error \<Rightarrow> string" where
  "message_or fallback err = (if message err = [] then fallback else message err)"

text \<open>\<^verbatim>\<open>(req.query.file as PageKey) || 'home'\<close>.\<close>

fun key_or_home :: "query \<Rightarrow> query" where
  "key_or_home QUndefined = QString ''home''"
| "key_or_home (QString s) = (if s = [] then QString ''home'' else QString s)"
| "key_or_home QOther = QOther"

text \<open>\<^verbatim>\<open>PAGE_KEYS.includes(key)\<close>, with the page key when it holds.\<close>

fun includes_key :: "query \<Rightarrow> page_key option" where
  "includes_key (QString s) = page_of s"
| "includes_key _ = None"

text \<open>
  What the handlers send at the end of their \<^verbatim>\<open>try\<close> block: the body with status
  200, or from the \<^verbatim>\<open>catch\<close> the message of the error with status 500.
\<close>

definition respond :: "string \<Rightarrow> body io \<Rightarrow> world \<Rightarrow> body outcome \<times> world" where
  "respond fallback f w =
     (case f w of
        (Inr b, w') \<Rightarrow> (Respond 200 b, w')
      | (Inl error, w') \<Rightarrow> (Respond 500 (ErrorBody (message_or fallback error)), w'))"

text \<open>The handler of \<^verbatim>\<open>GET /auth/secret/config\<close>, after the guard.\<close>

definition get_config :: "env \<Rightarrow> request \<Rightarrow> world \<Rightarrow> body outcome \<times> world" where
  "get_config e req w =
     (case includes_key (key_or_home (query_file req)) of
        None \<Rightarrow> (Respond 400 (ErrorBody ''Invalid config key''), w)
      | Some key \<Rightarrow>
          respond ''Failed to read config''
            (and_then
               (catch (readFromDisk e key)
                  (\<lambda>err. if github_configured e then readFromGitHub e key else throw err))
               (\<lambda>data. succeed (ConfigBody data))) w)"

text \<open>\<^verbatim>\<open>req.body ?? {}\<close>.\<close>

fun body_or_empty :: "json option \<Rightarrow> json" where
  "body_or_empty None = JObj []"
| "body_or_empty (Some JNull) = JObj []"
| "body_or_empty (Some v) = v"

text \<open>The handler of \<^verbatim>\<open>PUT /auth/secret/config\<close>, after the guard.\<close>

definition put_config :: "env \<Rightarrow> request \<Rightarrow> world \<Rightarrow> body outcome \<times> world" where
  "put_config e req w =
     (case updateSchema_parse (body_or_empty (json_body req)) of
        Inl issues \<Rightarrow> (Respond 400 (ValidationBody (flatten issues)), w)
      | Inr body \<Rightarrow>
          respond ''Failed to update config''
            (if commit body then
               and_then (commitToGitHub e (file_key body) (content body) (commitMessage body))
                 (\<lambda>_.
               and_then (catch (writeToDisk e (file_key body) (content body)) (\<lambda>_. succeed ()))
                 (\<lambda>_. succeed (OkBody True)))
             else
               and_then (writeToDisk e (file_key body) (content body))
                 (\<lambda>_. succeed (OkBody False))) w)"

text \<open>A route: the guard, then the handler when the guard calls \<^verbatim>\<open>next()\<close>.\<close>

definition guarded ::
  "(env \<Rightarrow> request \<Rightarrow> world \<Rightarrow> body outcome \<times> world) \<Rightarrow> env \<Rightarrow> request \<Rightarrow> world \<Rightarrow>
   body outcome \<times> world" where
  "guarded handler e req w =
     (case authGuard e (authorization req) of
        Next \<Rightarrow> handler e req w
      | Respond code b \<Rightarrow> (Respond code b, w))"

definition GET_config :: "env \<Rightarrow> request \<Rightarrow> world \<Rightarrow> body outcome \<times> world" where
  "GET_config = guarded get_config"

definition PUT_config :: "env \<Rightarrow> request \<Rightarrow> world \<Rightarrow> body outcome \<times> world" where
  "PUT_config = guarded put_config"

section \<open>Observations on a run\<close>

text \<open>The effects of a run that reach the file system.\<close>

fun is_fetch :: "effect \<Rightarrow> bool" where
  "is_fetch (Fetch _) = True"
| "is_fetch _ = False"

definition fs_effects :: "world \<Rightarrow> effect list" where
  "fs_effects w = filter (\<lambda>x. \<not> is_fetch x) (log w)"

text \<open>
  An operation that leaves the world as it was but for the log, to which it adds requests
  to the network only.
\<close>

definition same_but_log :: "world \<Rightarrow> world \<Rightarrow> bool" where
  "same_but_log w w' = (w' = w\<lparr>log := log w'\<rparr>)"

definition network_only :: "'a io \<Rightarrow> bool" where
  "network_only f =
     (\<forall>w. same_but_log w (snd (f w)) \<and> fs_effects (snd (f w)) = fs_effects w)"


section \<open>Sample configurations\<close>

text \<open>
  The environment with nothing set: the fallback credentials \<^verbatim>\<open>admin\<close> /
  \<^verbatim>\<open>change-me\<close>, no remote store, the branch \<^verbatim>\<open>main\<close>.
\<close>

definition default_env :: env where
  "default_env =
     \<lparr>ADMIN_CREDENTIALS = [''admin'' \<mapsto> ''change-me''],
      CONFIG_FOLDER = ''/app/public/config'',
      GITHUB_TOKEN = None, GITHUB_OWNER = None, GITHUB_REPO = None,
      GITHUB_BRANCH = ''main''\<rparr>"

definition github_env :: env where
  "github_env =
     default_env\<lparr>GITHUB_TOKEN := Some ''t0ken'', GITHUB_OWNER := Some ''acme'',
                  GITHUB_REPO := Some ''site''\<rparr>"

text \<open>An empty disk without faults, and a network that cannot be reached.\<close>

definition offline_world :: world where
  "offline_world =
     \<lparr>files = Map.empty,
      mkdir_fault = (\<lambda>_ _. None), read_fault = (\<lambda>_ _. None), write_fault = (\<lambda>_ _. None),
      remote = (\<lambda>_ _. Inl (Error ''fetch failed'')),
      syntax_error = (\<lambda>_. Error ''Unexpected end of JSON input''),
      buffer_from = (\<lambda>_. Inl invalid_first_argument),
      log = []\<rparr>"

text \<open>A request with the fallback credentials, \<^verbatim>\<open>admin:change-me\<close>.\<close>

definition admin_request :: request where
  "admin_request =
     \<lparr>authorization = Some ''Basic YWRtaW46Y2hhbmdlLW1l'', query_file = QUndefined,
      json_body = None\<rparr>"

text \<open>A network that answers every GET with one response and every other request with another.\<close>

definition answering :: "fetch_response \<Rightarrow> fetch_response \<Rightarrow> world" where
  "answering on_get on_put =
     offline_world\<lparr>remote := (\<lambda>_ req. if req_method req = ''GET'' then Inr on_get else Inr on_put)\<rparr>"

text \<open>The same world with a disk that refuses every write.\<close>

definition read_only :: "world \<Rightarrow> world" where
  "read_only w = w\<lparr>write_fault := (\<lambda>_ _. Some (Error ''EACCES: permission denied''))\<rparr>"

definition not_found :: fetch_response where
  "not_found = \<lparr>res_status = 404, res_text = stringify (JObj [(''message'', JStr ''Not Found'')])\<rparr>"

definition created :: fetch_response where
  "created = \<lparr>res_status = 201, res_text = stringify (JObj [])\<rparr>"

definition unprocessable :: fetch_response where
  "unprocessable = \<lparr>res_status = 422, res_text = stringify (JObj [(''message'', JStr ''Invalid request'')])\<rparr>"

text \<open>The answer of the contents API for a file that holds the given document.\<close>

definition found :: "string \<Rightarrow> json \<Rightarrow> fetch_response" where
  "found sha doc =
     \<lparr>res_status = 200,
      res_text = stringify (JObj [(''sha'', JStr sha),
                   (''content'', JStr (toString_base64 (serialize ''  '' [] doc)))])\<rparr>"

definition sample_document :: json where
  "sample_document =
     JObj [(''phone'', JStr ''555-0100''),
           (''hours'', JArr [JNum (Number 9 0), JNum (Number 175 (- 1))])]"

text \<open>A request of the administrator to write the sample document and commit it.\<close>

definition commit_request :: request where
  "commit_request =
     admin_request\<lparr>json_body := Some (JObj [(''file'', JStr ''contact''),
       (''content'', sample_document), (''commit'', JBool True)])\<rparr>"

text \<open>The disk of the offline world with an empty document for the home page.\<close>

definition home_world :: world where
  "home_world = offline_world\<lparr>files := [''/app/public/config/home.json'' \<mapsto> ''{}'']\<rparr>"

text \<open>Credentials with a colon in a password, and with one in a user name as well.\<close>

definition colon_env :: env where
  "colon_env = default_env\<lparr>ADMIN_CREDENTIALS := [''admin'' \<mapsto> ''a:b'']\<rparr>"

definition colon_user_env :: env where
  "colon_user_env = default_env\<lparr>ADMIN_CREDENTIALS := [''a:b'' \<mapsto> ''c:d'', ''a'' \<mapsto> ''b'']\<rparr>"




section \<open>Properties of the parts\<close>

subsection \<open>Splitting\<close>

lemma split_not_Nil: "split c s \<noteq> []"
  by (induction s) (auto split: list.splits)

lemma split_without: "c \<notin> set s \<Longrightarrow> split c s = [s]"
  by (induction s) auto

lemma split_at_first: "c \<notin> set xs \<Longrightarrow> split c (xs @ c # ys) = xs # split c ys"
  by (induction xs) auto

lemma split_parts_without: "p \<in> set (split c s) \<Longrightarrow> c \<notin> set p"
  by (induction s arbitrary: p) (auto split: if_splits list.splits)

lemma split_first_part: "\<exists>p ps. split c s = p # ps \<and> c \<notin> set p"
proof (cases "split c s")
  case Nil
  then show ?thesis by (simp add: split_not_Nil)
next
  case (Cons p ps)
  then have "p \<in> set (split c s)" by simp
  then have "c \<notin> set p" by (rule split_parts_without)
  with Cons show ?thesis by simp
qed

lemma authGuard_Basic:
  assumes "split CHR '' '' header = ''Basic'' # token # rest"
    and "token \<noteq> []"
    and "split CHR '':'' (base64_toString token) = user # pass # others"
  shows "authGuard e (Some header) =
     (if property (ADMIN_CREDENTIALS e) user = Str pass then Next
      else Respond 401 (ErrorBody ''Unauthorized''))"
proof -
  have "(if truthy (Some header) then the (Some header) else []) = header" by simp
  then show ?thesis
    unfolding authGuard_def Let_def using assms by simp
qed

subsection \<open>Operations that only reach the network\<close>

lemma same_but_log_refl: "same_but_log w w"
  by (simp add: same_but_log_def)

lemma same_but_log_trans: "same_but_log w w1 \<Longrightarrow> same_but_log w1 w2 \<Longrightarrow> same_but_log w w2"
  unfolding same_but_log_def
  by (metis world.update_convs(8) world.surjective world.select_convs)

lemma same_but_log_files: "same_but_log w w' \<Longrightarrow> files w' = files w"
  unfolding same_but_log_def by (metis world.select_convs(1) world.surjective world.update_convs(8))

lemma same_but_log_fields:
  assumes "same_but_log w w'"
  shows "mkdir_fault w' = mkdir_fault w" "read_fault w' = read_fault w"
    "write_fault w' = write_fault w" "remote w' = remote w"
    "syntax_error w' = syntax_error w" "buffer_from w' = buffer_from w"
proof -
  from assms have "w' = w\<lparr>log := log w'\<rparr>" by (simp add: same_but_log_def)
  then have "mkdir_fault w' = mkdir_fault (w\<lparr>log := log w'\<rparr>)"
    "read_fault w' = read_fault (w\<lparr>log := log w'\<rparr>)"
    "write_fault w' = write_fault (w\<lparr>log := log w'\<rparr>)"
    "remote w' = remote (w\<lparr>log := log w'\<rparr>)"
    "syntax_error w' = syntax_error (w\<lparr>log := log w'\<rparr>)"
    "buffer_from w' = buffer_from (w\<lparr>log := log w'\<rparr>)"
    by simp_all
  then show "mkdir_fault w' = mkdir_fault w" "read_fault w' = read_fault w"
    "write_fault w' = write_fault w" "remote w' = remote w"
    "syntax_error w' = syntax_error w" "buffer_from w' = buffer_from w"
    by simp_all
qed

lemma network_only_succeed: "network_only (succeed x)"
  by (simp add: network_only_def succeed_def same_but_log_refl)

lemma network_only_throw: "network_only (throw err)"
  by (simp add: network_only_def throw_def same_but_log_refl)

lemma network_only_fetch: "network_only (fetch req)"
  by (simp add: network_only_def fetch_def record_effect_def same_but_log_def fs_effects_def)

lemma network_only_parse: "network_only (parse_or_throw raw)"
  by (simp add: network_only_def parse_or_throw_def same_but_log_refl split: option.splits)

lemma network_only_and_then:
  assumes "network_only f" and "\<And>x. network_only (g x)"
  shows "network_only (and_then f g)"
proof -
  have "same_but_log w (snd (and_then f g w)) \<and> fs_effects (snd (and_then f g w)) = fs_effects w" for w
  proof (cases "f w")
    case (Pair r w1)
    from assms(1) Pair have f: "same_but_log w w1" "fs_effects w1 = fs_effects w"
      by (auto simp: network_only_def dest: spec [of _ w])
    show ?thesis
    proof (cases r)
      case (Inl err)
      with Pair f show ?thesis by (simp add: and_then_def)
    next
      case (Inr x)
      from assms(2) [of x] have "same_but_log w1 (snd (g x w1))" "fs_effects (snd (g x w1)) = fs_effects w1"
        by (auto simp: network_only_def)
      with Pair Inr f show ?thesis
        by (auto simp: and_then_def intro: same_but_log_trans)
    qed
  qed
  then show ?thesis by (simp add: network_only_def)
qed

lemma network_only_if:
  "network_only f \<Longrightarrow> network_only g \<Longrightarrow> network_only (if c then f else g)"
  by simp

lemma network_only_commitToGitHub: "network_only (commitToGitHub e page payload msg)"
  unfolding commitToGitHub_def encode_content_def
  by (intro network_only_if network_only_and_then network_only_throw network_only_fetch
      network_only_parse network_only_succeed) (simp_all add: network_only_throw network_only_succeed split: option.splits)

subsection \<open>The local store\<close>

lemma writeToDisk_files:
  assumes "fst (writeToDisk e key (Some d) w) = Inr u"
  shows "files (snd (writeToDisk e key (Some d) w)) =
           (files w)(getConfigPath e key \<mapsto> serialize ''  '' [] d)"
  using assms
  by (simp add: writeToDisk_def and_then_def ensureConfigDir_def mkdir_def writeFile_def
      stringify_pretty_def record_effect_def split: option.splits)

lemma writeToDisk_fields:
  "mkdir_fault (snd (writeToDisk e key payload w)) = mkdir_fault w"
  "read_fault (snd (writeToDisk e key payload w)) = read_fault w"
  "write_fault (snd (writeToDisk e key payload w)) = write_fault w"
  "syntax_error (snd (writeToDisk e key payload w)) = syntax_error w"
  by (simp_all add: writeToDisk_def and_then_def ensureConfigDir_def mkdir_def writeFile_def
      record_effect_def split: option.splits)

lemma writeToDisk_ok:
  assumes "mkdir_fault w (clock w) (CONFIG_FOLDER e) = None"
    and "write_fault w (Suc (clock w)) (getConfigPath e key) = None"
  shows "fst (writeToDisk e key (Some d) w) = Inr ()"
  using assms
  by (simp add: writeToDisk_def and_then_def ensureConfigDir_def mkdir_def writeFile_def
      stringify_pretty_def record_effect_def clock_def)

lemma writeToDisk_refused:
  assumes "mkdir_fault w (clock w) (CONFIG_FOLDER e) = None"
    and "write_fault w (Suc (clock w)) (getConfigPath e page) = Some err"
  shows "fst (writeToDisk e page (Some d) w) = Inl err"
  using assms
  by (simp add: writeToDisk_def and_then_def ensureConfigDir_def mkdir_def writeFile_def
      stringify_pretty_def record_effect_def clock_def)

lemma readFromDisk_world:
  "snd (readFromDisk e key w) = record_effect (ReadFile (getConfigPath e key)) w"
  by (simp add: readFromDisk_def and_then_def readFile_def parse_or_throw_def
      split: option.splits)

lemma readFromDisk_missing:
  assumes "read_fault w (clock w) (getConfigPath e key) = None"
    and "files w (getConfigPath e key) = None"
  shows "fst (readFromDisk e key w) = Inl (enoent (getConfigPath e key))"
  using assms by (simp add: readFromDisk_def and_then_def readFile_def)

subsection \<open>The remote store\<close>

lemma encodeGitHubPath_paths: "encodeGitHubPath (GITHUB_FILE_PATHS page) = GITHUB_FILE_PATHS page"
  by (cases page) (simp_all, code_simp+)

lemma sha_of_member: "sha_of data = member data ''sha''"
  by (cases data) (simp_all add: sha_of_def)

lemma truthy_message:
  "(if truthy msg then the msg else fallback) =
     (case msg of None \<Rightarrow> fallback | Some m \<Rightarrow> if m = [] then fallback else m)"
  by (cases msg) simp_all

lemma readFromGitHub_found:
  assumes "github_configured e"
    and "remote w = (\<lambda>_ req. if req_method req = ''GET'' then Inr g else Inr p)"
    and "ok g"
    and "JSON_parse (res_text g) = Some (JObj kvs)"
    and "map_of kvs ''content'' = Some (JStr c)"
    and "JSON_parse (base64_toString c) = Some d"
  shows "fst (readFromGitHub e page w) = Inr d"
  using assms
  by (simp add: readFromGitHub_def and_then_def fetch_def parse_or_throw_def content_of_def
      succeed_def decode_content_def)

subsection \<open>Page keys\<close>

lemma page_of_None: "page_of s = None \<longleftrightarrow> s \<notin> set (map page_name PAGE_KEYS)"
  by (auto simp: page_of_def PAGE_KEYS_def find_None_iff)

subsection \<open>Numbers written and read back\<close>




































subsection \<open>Strings written and read back\<close>






subsection \<open>Values written and read back\<close>






















subsection \<open>The sample configurations\<close>

lemma authGuard_admin_request: "authGuard default_env (authorization admin_request) = Next"
  by code_simp

lemma authGuard_github_env: "authGuard github_env h = authGuard default_env h"
  by (simp add: authGuard_def github_env_def default_env_def Let_def)

lemma github_env_configured: "github_configured github_env"
  by (simp add: github_configured_def github_env_def default_env_def)

lemma default_env_not_configured: "\<not> github_configured default_env"
  by (simp add: github_configured_def default_env_def)

lemma authorization_samples:
  "authorization commit_request = authorization admin_request"
  by (simp add: commit_request_def)

lemma commit_request_parse:
  "updateSchema_parse (body_or_empty (json_body commit_request)) =
     Inr \<lparr>content = Some sample_document, commit = True, commitMessage = None, file_key = Contact\<rparr>"
  by code_simp

lemma ok_samples: "\<not> ok not_found" "\<not> ok unprocessable" "ok created" "ok (found sha doc)"
  by (simp_all add: ok_def not_found_def unprocessable_def created_def found_def)

lemma commit_answering:
  assumes "github_configured e" and "\<not> ok g"
  shows "fst (commitToGitHub e page (Some d) msg (answering g p)) =
     (if ok p then Inr ()
      else Inl (Error (''GitHub commit failed: '' @ show_nat (res_status p) @ '' '' @ res_text p)))"
  using assms
  by (simp add: commitToGitHub_def and_then_def fetch_def answering_def offline_world_def
      record_effect_def succeed_def throw_def encode_content_def stringify_pretty_def)

lemma commit_read_only_answering:
  assumes "github_configured e" and "\<not> ok g"
  shows "fst (commitToGitHub e page (Some d) msg (read_only (answering g p))) =
     (if ok p then Inr ()
      else Inl (Error (''GitHub commit failed: '' @ show_nat (res_status p) @ '' '' @ res_text p)))"
  using assms
  by (simp add: commitToGitHub_def and_then_def fetch_def answering_def offline_world_def read_only_def
      record_effect_def succeed_def throw_def encode_content_def stringify_pretty_def)

section \<open>The claims\<close>

subsection \<open>The guard\<close>

text \<open>
  C1. The guard is meant to answer 401 whenever the header does not carry a well-formed
  pair of a user and the password stored for that user. It does not: a token that decodes
  to a name without a colon gives no password at all, and for a name that has no
  credentials the lookup gives nothing either; the two are equal, and the guard lets the
  request through. The token \<^verbatim>\<open>Zm9v\<close> is the name \<^verbatim>\<open>foo\<close>.
\<close>

theorem authGuard_admits_unknown_user:
  assumes "ADMIN_CREDENTIALS e ''foo'' = None"
  shows "authGuard e (Some ''Basic Zm9v'') = Next"
proof -
  have d: "base64_toString ''Zm9v'' = ''foo''" by code_simp
  have k: "''foo'' \<notin> set object_prototype_keys" by code_simp
  show ?thesis
    using assms k by (simp add: authGuard_def d property_def)
qed

theorem authGuard_admits_unknown_user_witness:
  "ADMIN_CREDENTIALS default_env ''foo'' = None \<and> authGuard default_env (Some ''Basic Zm9v'') = Next"
proof -
  have h: "ADMIN_CREDENTIALS default_env ''foo'' = None" by (simp add: default_env_def)
  show ?thesis using h authGuard_admits_unknown_user [OF h] by simp
qed

text \<open>
  C10, as the code has it. For a user whose name has no colon and whose stored password
  has one, the guard answers 401 to every request with the Basic scheme whose token
  decodes to the name, a colon and a password, whatever the password: the stored one,
  which is the correct one, included. Of the decoded text only the part between the first
  and the second colon is compared with the stored password, and that part has no colon.
\<close>

theorem colon_password_rejected:
  assumes "ADMIN_CREDENTIALS e u = Some p"
    and "CHR '':'' \<in> set p"
    and "CHR '':'' \<notin> set u"
    and "CHR '' '' \<notin> set token"
    and "base64_toString token = u @ CHR '':'' # pw"
  shows "authGuard e (Some (''Basic '' @ token)) = Respond 401 (ErrorBody ''Unauthorized'')"
proof -
  have h: "split CHR '' '' (''Basic '' @ token) = [''Basic'', token]"
    using split_at_first [of "CHR '' ''" "''Basic''" token] split_without [OF assms(4)] by simp
  obtain q qs where q: "split CHR '':'' pw = q # qs" "CHR '':'' \<notin> set q"
    using split_first_part by blast
  have d: "split CHR '':'' (base64_toString token) = u # q # qs"
    using split_at_first [OF assms(3), of pw] q(1) assms(5) by simp
  from assms(2) q(2) have "p \<noteq> q" by auto
  moreover from assms(5) have "token \<noteq> []" by (auto simp: base64_toString_def)
  ultimately show ?thesis
    using assms(1) authGuard_Basic [OF h _ d, of e] by (simp add: property_def)
qed

theorem colon_password_rejected_witness:
  "ADMIN_CREDENTIALS colon_env ''admin'' = Some ''a:b'' \<and>
   base64_toString ''YWRtaW46YTpi'' = ''admin'' @ CHR '':'' # ''a:b'' \<and>
   authGuard colon_env (Some (''Basic '' @ ''YWRtaW46YTpi'')) =
     Respond 401 (ErrorBody ''Unauthorized'')"
proof -
  have a: "ADMIN_CREDENTIALS colon_env ''admin'' = Some ''a:b''"
    by (simp add: colon_env_def)
  have b: "CHR '':'' \<in> set ''a:b''" by simp
  have c: "CHR '':'' \<notin> set ''admin''" by simp
  have d: "CHR '' '' \<notin> set ''YWRtaW46YTpi''" by simp
  have f: "base64_toString ''YWRtaW46YTpi'' = ''admin'' @ CHR '':'' # ''a:b''" by code_simp
  show ?thesis
    using a f colon_password_rejected [OF a b c d f] by simp
qed

text \<open>
  The guard does not reject every request that carries the correct credentials of a
  user whose password has a colon. With the users \<^verbatim>\<open>a:b\<close> (password \<^verbatim>\<open>c:d\<close>)
  and \<^verbatim>\<open>a\<close> (password \<^verbatim>\<open>b\<close>), the token of \<^verbatim>\<open>a:b:c:d\<close>, which is the
  name and the password of the first, is let through.
\<close>

theorem colon_user_admitted:
  "ADMIN_CREDENTIALS colon_user_env ''a:b'' = Some ''c:d'' \<and>
   toString_base64 (''a:b'' @ '':'' @ ''c:d'') = ''YTpiOmM6ZA=='' \<and>
   authGuard colon_user_env (Some ''Basic YTpiOmM6ZA=='') = Next"
proof -
  have "ADMIN_CREDENTIALS colon_user_env ''a:b'' = Some ''c:d''"
    by (simp add: colon_user_env_def)
  moreover have "toString_base64 (''a:b'' @ '':'' @ ''c:d'') = ''YTpiOmM6ZA==''" by code_simp
  moreover have "authGuard colon_user_env (Some ''Basic YTpiOmM6ZA=='') = Next" by code_simp
  ultimately show ?thesis by simp
qed

subsection \<open>Page keys and request bodies\<close>



text \<open>
  C3, as the code has it. For a string that is not one of the five page keys: the read
  endpoint answers 400 \<^verbatim>\<open>Invalid config key\<close> when the string is not empty, the
  write endpoint answers 400 with a validation error about \<^verbatim>\<open>file\<close>, and neither
  changes the world, its log of effects included. (An empty \<^verbatim>\<open>file\<close> parameter of
  a read is taken as absent, and the home page is read.)
\<close>

theorem invalid_key_rejected:
  assumes "authGuard e (authorization req) = Next"
    and "s \<notin> set (map page_name PAGE_KEYS)"
  shows "(query_file req = QString s \<and> s \<noteq> [] \<longrightarrow>
            GET_config e req w = (Respond 400 (ErrorBody ''Invalid config key''), w)) \<and>
         (json_body req = Some (JObj kvs) \<and> map_of kvs ''file'' = Some (JStr s) \<longrightarrow>
            (\<exists>issues. PUT_config e req w = (Respond 400 (ValidationBody (flatten issues)), w) \<and>
               Issue [''file''] \<in> set issues))"
proof (intro conjI impI)
  assume q: "query_file req = QString s \<and> s \<noteq> []"
  from assms(2) have "page_of s = None" by (simp add: page_of_None)
  with assms(1) q show "GET_config e req w = (Respond 400 (ErrorBody ''Invalid config key''), w)"
    by (simp add: GET_config_def guarded_def get_config_def)
next
  assume b: "json_body req = Some (JObj kvs) \<and> map_of kvs ''file'' = Some (JStr s)"
  from assms(2) have n: "page_of s = None" by (simp add: page_of_None)
  let ?c = "content_field (map_of kvs ''content'')"
  let ?b = "commit_field (map_of kvs ''commit'')"
  let ?m = "commitMessage_field (map_of kvs ''commitMessage'')"
  let ?issues = "issues_of ?c @ issues_of ?b @ issues_of ?m @ [Issue [''file'']]"
  have "updateSchema_parse (JObj kvs) = Inl ?issues"
    using b n by (simp add: updateSchema_parse_def split: sum.splits)
  with assms(1) b have "PUT_config e req w = (Respond 400 (ValidationBody (flatten ?issues)), w)"
    by (simp add: PUT_config_def guarded_def put_config_def)
  moreover have "Issue [''file''] \<in> set ?issues" by simp
  ultimately show "\<exists>issues. PUT_config e req w = (Respond 400 (ValidationBody (flatten issues)), w) \<and>
      Issue [''file''] \<in> set issues"
    by blast
qed

theorem invalid_key_rejected_witness:
  "''about'' \<notin> set (map page_name PAGE_KEYS) \<and>
   GET_config default_env (admin_request\<lparr>query_file := QString ''about''\<rparr>) home_world =
     (Respond 400 (ErrorBody ''Invalid config key''), home_world) \<and>
   (\<exists>issues. PUT_config default_env
       (admin_request\<lparr>json_body := Some (JObj [(''file'', JStr ''about''), (''content'', JNull)])\<rparr>)
       home_world = (Respond 400 (ValidationBody (flatten issues)), home_world) \<and>
     Issue [''file''] \<in> set issues)"
proof -
  have k: "''about'' \<notin> set (map page_name PAGE_KEYS)" by (simp add: PAGE_KEYS_def)
  let ?get = "admin_request\<lparr>query_file := QString ''about''\<rparr>"
  let ?put = "admin_request\<lparr>json_body := Some (JObj [(''file'', JStr ''about''), (''content'', JNull)])\<rparr>"
  have a: "authGuard default_env (authorization ?get) = Next"
    "authGuard default_env (authorization ?put) = Next"
    by (simp_all add: authGuard_admin_request)
  show ?thesis
    using k invalid_key_rejected [OF a(1) k, of home_world "[]"]
      invalid_key_rejected [OF a(2) k, of home_world "[(''file'', JStr ''about''), (''content'', JNull)]"]
    by simp
qed

text \<open>
  The read endpoint does not answer 400 for every string that is not a page key: the
  empty string is none of the five, and a read with \<^verbatim>\<open>?file=\<close> is answered with the
  document of the home page, read from the local store.
\<close>

theorem empty_key_reads_home:
  "[] \<notin> set (map page_name PAGE_KEYS) \<and>
   fst (GET_config default_env (admin_request\<lparr>query_file := QString []\<rparr>) home_world) =
     Respond 200 (ConfigBody (JObj [])) \<and>
   log (snd (GET_config default_env (admin_request\<lparr>query_file := QString []\<rparr>) home_world)) =
     [ReadFile ''/app/public/config/home.json'']"
proof -
  have p: "JSON_parse ''{}'' = Some (JObj [])" by code_simp
  have g: "getConfigPath default_env Home = ''/app/public/config/home.json''"
    by (simp add: getConfigPath_def path_join_def default_env_def)
  have h: "page_of ''home'' = Some Home" by code_simp
  show ?thesis
    using authGuard_admin_request
    by (simp add: PAGE_KEYS_def GET_config_def guarded_def get_config_def h respond_def
        and_then_def catch_def readFromDisk_def readFile_def g home_world_def offline_world_def
        parse_or_throw_def p succeed_def record_effect_def)
qed

subsection \<open>Reading\<close>

text \<open>
  C5. For a valid page key, when the read of the local store fails: if the token, the
  owner and the repository of the remote store are configured, the answer is that of the
  read of the remote store, its document with status 200 or its error with status 500;
  if they are not, the answer is status 500 with the message of the local failure.
\<close>

theorem read_falls_back_to_remote:
  assumes "authGuard e (authorization req) = Next"
    and "includes_key (key_or_home (query_file req)) = Some key"
    and "fst (readFromDisk e key w) = Inl err"
  shows "GET_config e req w =
     (if github_configured e
      then (case readFromGitHub e key (snd (readFromDisk e key w)) of
              (Inr document, w') \<Rightarrow> (Respond 200 (ConfigBody document), w')
            | (Inl remote_err, w') \<Rightarrow>
                (Respond 500 (ErrorBody (message_or ''Failed to read config'' remote_err)), w'))
      else (Respond 500 (ErrorBody (message_or ''Failed to read config'' err)),
            snd (readFromDisk e key w)))"
proof -
  obtain r w1 where d: "readFromDisk e key w = (r, w1)"
    by (cases "readFromDisk e key w")
  with assms(3) have r: "r = Inl err" by simp
  show ?thesis
    using assms(1,2) d r
    by (simp add: GET_config_def guarded_def get_config_def respond_def and_then_def catch_def
        throw_def succeed_def split: prod.splits sum.splits)
qed

theorem read_falls_back_to_remote_witness:
  "fst (readFromDisk github_env Contact (answering (found ''3d21ec5'' sample_document) created)) =
     Inl (enoent (getConfigPath github_env Contact)) \<and>
   fst (GET_config github_env (admin_request\<lparr>query_file := QString ''contact''\<rparr>)
          (answering (found ''3d21ec5'' sample_document) created)) =
     Respond 200 (ConfigBody sample_document) \<and>
   fst (readFromDisk default_env Contact offline_world) =
     Inl (enoent (getConfigPath default_env Contact)) \<and>
   fst (GET_config default_env (admin_request\<lparr>query_file := QString ''contact''\<rparr>) offline_world) =
     Respond 500 (ErrorBody (message (enoent (getConfigPath default_env Contact))))"
proof -
  let ?req = "admin_request\<lparr>query_file := QString ''contact''\<rparr>"
  let ?w = "answering (found ''3d21ec5'' sample_document) created"
  let ?w1 = "snd (readFromDisk github_env Contact ?w)"
  have a: "authGuard github_env (authorization ?req) = Next"
    "authGuard default_env (authorization ?req) = Next"
    by (simp_all add: authGuard_github_env authGuard_admin_request)
  have k: "includes_key (key_or_home (query_file ?req)) = Some Contact" by code_simp
  have l: "fst (readFromDisk github_env Contact ?w) = Inl (enoent (getConfigPath github_env Contact))"
    by (rule readFromDisk_missing) (simp_all add: answering_def offline_world_def)
  have l': "fst (readFromDisk default_env Contact offline_world) =
      Inl (enoent (getConfigPath default_env Contact))"
    by (rule readFromDisk_missing) (simp_all add: offline_world_def)
  have p: "JSON_parse (res_text (found ''3d21ec5'' sample_document)) =
      Some (JObj [(''sha'', JStr ''3d21ec5''),
        (''content'', JStr (toString_base64 (serialize ''  '' [] sample_document)))])"
    by code_simp
  have q: "JSON_parse (base64_toString (toString_base64 (serialize ''  '' [] sample_document))) =
      Some sample_document"
    by code_simp
  have g: "fst (readFromGitHub github_env Contact ?w1) = Inr sample_document"
    by (rule readFromGitHub_found [OF github_env_configured _ ok_samples(4) p _ q])
      (simp_all add: readFromDisk_world record_effect_def answering_def offline_world_def)
  have m: "message_or ''Failed to read config'' (enoent (getConfigPath default_env Contact)) =
      message (enoent (getConfigPath default_env Contact))"
    by (simp add: message_or_def enoent_def)
  have "fst (GET_config github_env ?req ?w) = Respond 200 (ConfigBody sample_document)"
    using read_falls_back_to_remote [OF a(1) k l] g github_env_configured
    by (simp split: prod.splits sum.splits)
  moreover have "fst (GET_config default_env ?req offline_world) =
      Respond 500 (ErrorBody (message (enoent (getConfigPath default_env Contact))))"
    using read_falls_back_to_remote [OF a(2) k l'] default_env_not_configured m by simp
  ultimately show ?thesis using l l' by simp
qed

subsection \<open>Writing\<close>

text \<open>
  C4. A write with \<open>commit\<close> set whose commit to the remote store fails is answered
  with status 500 and the message of the failure, and the local store is as it was: its
  files are unchanged, and no operation on the file system has been attempted.
\<close>

theorem remote_failure_keeps_disk:
  assumes "authGuard e (authorization req) = Next"
    and "updateSchema_parse (body_or_empty (json_body req)) = Inr b"
    and "commit b"
    and "fst (commitToGitHub e (file_key b) (content b) (commitMessage b) w) = Inl err"
  shows "fst (PUT_config e req w) =
           Respond 500 (ErrorBody (message_or ''Failed to update config'' err)) \<and>
         files (snd (PUT_config e req w)) = files w \<and>
         fs_effects (snd (PUT_config e req w)) = fs_effects w"
proof -
  obtain r w' where c: "commitToGitHub e (file_key b) (content b) (commitMessage b) w = (r, w')"
    by (cases "commitToGitHub e (file_key b) (content b) (commitMessage b) w")
  with assms(4) have r: "r = Inl err" by simp
  have p: "PUT_config e req w =
      (Respond 500 (ErrorBody (message_or ''Failed to update config'' err)), w')"
    using assms(1-3) c r
    by (simp add: PUT_config_def guarded_def put_config_def respond_def and_then_def)
  from network_only_commitToGitHub [of e "file_key b" "content b" "commitMessage b"] c
  have "same_but_log w w'" "fs_effects w' = fs_effects w"
    by (auto simp: network_only_def dest: spec [of _ w])
  with p show ?thesis by (simp add: same_but_log_files)
qed

theorem remote_failure_keeps_disk_witness:
  "authGuard github_env (authorization commit_request) = Next \<and>
   fst (commitToGitHub github_env Contact (Some sample_document) None
          (answering not_found unprocessable)) =
     Inl (Error (''GitHub commit failed: '' @ show_nat 422 @ '' '' @ res_text unprocessable)) \<and>
   fst (PUT_config github_env commit_request (answering not_found unprocessable)) =
     Respond 500 (ErrorBody (''GitHub commit failed: '' @ show_nat 422 @ '' '' @ res_text unprocessable)) \<and>
   files (snd (PUT_config github_env commit_request (answering not_found unprocessable))) = Map.empty \<and>
   fs_effects (snd (PUT_config github_env commit_request (answering not_found unprocessable))) = []"
proof -
  let ?w = "answering not_found unprocessable"
  let ?b = "\<lparr>content = Some sample_document, commit = True, commitMessage = None, file_key = Contact\<rparr>"
  let ?err = "Error (''GitHub commit failed: '' @ show_nat 422 @ '' '' @ res_text unprocessable)"
  have a: "authGuard github_env (authorization commit_request) = Next"
    by (simp add: authGuard_github_env authorization_samples authGuard_admin_request)
  have c: "commit ?b" by simp
  have f: "fst (commitToGitHub github_env (file_key ?b) (content ?b) (commitMessage ?b) ?w) = Inl ?err"
    using commit_answering [OF github_env_configured ok_samples(1), of Contact sample_document None unprocessable]
    by (simp add: ok_samples) (simp add: unprocessable_def)
  have m: "message_or ''Failed to update config'' ?err = message ?err"
    by (simp add: message_or_def)
  have w: "files ?w = Map.empty" "fs_effects ?w = []"
    by (simp_all add: answering_def offline_world_def fs_effects_def)
  show ?thesis
    using a f remote_failure_keeps_disk [OF a commit_request_parse c f] m w by simp
qed

text \<open>
  C6. A write with \<open>commit\<close> set whose commit to the remote store succeeds is answered
  with status 200 and \<^verbatim>\<open>{ ok: true, committed: true }\<close> also when the write to the
  local store fails afterwards: the failure is dropped.
\<close>

theorem local_failure_after_commit:
  assumes "authGuard e (authorization req) = Next"
    and "updateSchema_parse (body_or_empty (json_body req)) = Inr b"
    and "commit b"
    and "fst (commitToGitHub e (file_key b) (content b) (commitMessage b) w) = Inr u"
    and "fst (writeToDisk e (file_key b) (content b)
           (snd (commitToGitHub e (file_key b) (content b) (commitMessage b) w))) = Inl err"
  shows "fst (PUT_config e req w) = Respond 200 (OkBody True)"
proof -
  obtain r w' where c: "commitToGitHub e (file_key b) (content b) (commitMessage b) w = (r, w')"
    by (cases "commitToGitHub e (file_key b) (content b) (commitMessage b) w")
  with assms(4) have r: "r = Inr u" by simp
  obtain r' w'' where d: "writeToDisk e (file_key b) (content b) w' = (r', w'')"
    by (cases "writeToDisk e (file_key b) (content b) w'")
  with assms(5) c have r': "r' = Inl err" by simp
  show ?thesis
    using assms(1-3) c r d r'
    by (simp add: PUT_config_def guarded_def put_config_def respond_def and_then_def catch_def
        succeed_def)
qed

theorem local_failure_after_commit_witness:
  "authGuard github_env (authorization commit_request) = Next \<and>
   fst (commitToGitHub github_env Contact (Some sample_document) None
          (read_only (answering not_found created))) = Inr () \<and>
   fst (writeToDisk github_env Contact (Some sample_document)
          (snd (commitToGitHub github_env Contact (Some sample_document) None
             (read_only (answering not_found created))))) =
     Inl (Error ''EACCES: permission denied'') \<and>
   fst (PUT_config github_env commit_request (read_only (answering not_found created))) =
     Respond 200 (OkBody True)"
proof -
  let ?w = "read_only (answering not_found created)"
  let ?b = "\<lparr>content = Some sample_document, commit = True, commitMessage = None, file_key = Contact\<rparr>"
  let ?w' = "snd (commitToGitHub github_env Contact (Some sample_document) None ?w)"
  have a: "authGuard github_env (authorization commit_request) = Next"
    by (simp add: authGuard_github_env authorization_samples authGuard_admin_request)
  have c: "commit ?b" by simp
  have f: "fst (commitToGitHub github_env (file_key ?b) (content ?b) (commitMessage ?b) ?w) = Inr ()"
    using commit_read_only_answering [OF github_env_configured ok_samples(1), of Contact sample_document None created]
    by (simp add: ok_samples)
  have s: "same_but_log ?w ?w'"
    using network_only_commitToGitHub [of github_env Contact "Some sample_document" None]
    by (simp add: network_only_def)
  have d: "fst (writeToDisk github_env (file_key ?b) (content ?b)
        (snd (commitToGitHub github_env (file_key ?b) (content ?b) (commitMessage ?b) ?w))) =
      Inl (Error ''EACCES: permission denied'')"
    using writeToDisk_refused [of ?w' github_env Contact "Error ''EACCES: permission denied''" sample_document]
    by (simp add: same_but_log_fields [OF s]) (simp add: read_only_def answering_def offline_world_def)
  show ?thesis
    using a f d local_failure_after_commit [OF a commit_request_parse c f d] by simp
qed



text \<open>
  C8. Writing a document to a page key stores its text under the path of the key, and
  writing the same document a second time leaves every file of the local store as the
  first write left it.
\<close>

theorem write_twice_same_store:
  assumes "fst (writeToDisk e key (Some d) w) = Inr u"
    and "fst (writeToDisk e key (Some d) (snd (writeToDisk e key (Some d) w))) = Inr u'"
  shows "files (snd (writeToDisk e key (Some d) (snd (writeToDisk e key (Some d) w)))) =
           files (snd (writeToDisk e key (Some d) w)) \<and>
         files (snd (writeToDisk e key (Some d) w)) (getConfigPath e key) =
           Some (serialize ''  '' [] d)"
  using writeToDisk_files [OF assms(1)] writeToDisk_files [OF assms(2)] by simp

theorem write_twice_same_store_witness:
  "fst (writeToDisk default_env Contact (Some sample_document) offline_world) = Inr () \<and>
   fst (writeToDisk default_env Contact (Some sample_document)
          (snd (writeToDisk default_env Contact (Some sample_document) offline_world))) = Inr () \<and>
   files (snd (writeToDisk default_env Contact (Some sample_document)
            (snd (writeToDisk default_env Contact (Some sample_document) offline_world)))) =
     files (snd (writeToDisk default_env Contact (Some sample_document) offline_world)) \<and>
   files (snd (writeToDisk default_env Contact (Some sample_document) offline_world))
       (getConfigPath default_env Contact) =
     Some (serialize ''  '' [] sample_document)"
proof -
  let ?w1 = "snd (writeToDisk default_env Contact (Some sample_document) offline_world)"
  have a: "fst (writeToDisk default_env Contact (Some sample_document) offline_world) = Inr ()"
    by (rule writeToDisk_ok) (simp_all add: offline_world_def)
  have b: "fst (writeToDisk default_env Contact (Some sample_document) ?w1) = Inr ()"
    by (rule writeToDisk_ok) (simp_all add: writeToDisk_fields offline_world_def)
  show ?thesis
    using a b write_twice_same_store [OF a b] by simp
qed

subsection \<open>The remote store\<close>

text \<open>
  C9. With the token, the owner and the repository configured, a commit of a document
  first sends a GET for the file of the page key on the configured branch. When the
  network answers it (with a body that is JSON, if the status is a success), a PUT to
  the same file follows, and nothing else: its body holds the commit message (the one
  given or, when none or an empty one is given, \<^verbatim>\<open>Update <page> config\<close>), the
  pretty-printed document in base64, the branch, and the \<^verbatim>\<open>sha\<close> of the answer to
  the GET exactly when that answer was a success and had one.
\<close>

theorem commit_protocol:
  assumes "GITHUB_TOKEN e = Some token" and "token \<noteq> []"
    and "GITHUB_OWNER e = Some owner" and "owner \<noteq> []"
    and "GITHUB_REPO e = Some repo" and "repo \<noteq> []"
    and "url = ''https://api.github.com/repos/'' @ owner @ ''/'' @ repo @ ''/contents/'' @
           GITHUB_FILE_PATHS page"
    and "headers = [(''Authorization'', ''Bearer '' @ token),
           (''Content-Type'', ''application/json''), (''Accept'', ''application/vnd.github+json'')]"
    and "get = \<lparr>req_method = ''GET'', req_url = url @ ''?ref='' @ GITHUB_BRANCH e,
           req_headers = headers, req_body = None\<rparr>"
    and "remote w (clock w) get = Inr response"
    and "ok response \<Longrightarrow> JSON_parse (res_text response) = Some data"
    and "marker = (if ok response then member data ''sha'' else None)"
    and "commit_message =
           (case msg of None \<Rightarrow> ''Update '' @ page_name page @ '' config''
            | Some m \<Rightarrow> if m = [] then ''Update '' @ page_name page @ '' config'' else m)"
  shows "log (snd (commitToGitHub e page (Some d) msg w)) =
           log w @
           [Fetch get,
            Fetch \<lparr>req_method = ''PUT'', req_url = url, req_headers = headers,
                   req_body = Some (stringify (JObj (
                     [(''message'', JStr commit_message),
                      (''content'', JStr (toString_base64 (serialize ''  '' [] d))),
                      (''branch'', JStr (GITHUB_BRANCH e))] @
                     (case marker of None \<Rightarrow> [] | Some v \<Rightarrow> [(''sha'', v)]))))\<rparr>]"
proof -
  have c: "github_configured e"
    using assms(1-6) by (simp add: github_configured_def)
  have u: "contents_url e page = url"
    using assms(3,5,7) by (simp add: contents_url_def encodeGitHubPath_paths)
  have h: "commit_headers e = headers"
    using assms(1,8) by (simp add: commit_headers_def)
  have g: "\<lparr>req_method = ''GET'', req_url = url @ ''?ref='' @ GITHUB_BRANCH e,
           req_headers = headers, req_body = None\<rparr> = get"
    using assms(9) by simp
  have m: "(if truthy msg then the msg else ''Update '' @ page_name page @ '' config'') =
      commit_message"
    using assms(13) by (simp only: truthy_message)
  show ?thesis
  proof (cases "ok response")
    case True
    with assms(11) have "JSON_parse (res_text response) = Some data" by simp
    with True assms(10,12) show ?thesis
      unfolding commitToGitHub_def u h g m
      by (simp add: c and_then_def fetch_def record_effect_def parse_or_throw_def succeed_def
          throw_def encode_content_def stringify_pretty_def commit_body_def sha_of_member
          split: sum.splits)
  next
    case False
    with assms(10,12) show ?thesis
      unfolding commitToGitHub_def u h g m
      by (simp add: c and_then_def fetch_def record_effect_def succeed_def
          throw_def encode_content_def stringify_pretty_def commit_body_def
          split: sum.splits)
  qed
qed

theorem commit_protocol_witness:
  "log (snd (commitToGitHub github_env Contact (Some sample_document) None
       (answering (found ''3d21ec5'' sample_document) created))) =
     [Fetch \<lparr>req_method = ''GET'',
             req_url = ''https://api.github.com/repos/acme/site/contents/public/config/contact.json?ref=main'',
             req_headers = [(''Authorization'', ''Bearer t0ken''),
               (''Content-Type'', ''application/json''), (''Accept'', ''application/vnd.github+json'')],
             req_body = None\<rparr>,
      Fetch \<lparr>req_method = ''PUT'',
             req_url = ''https://api.github.com/repos/acme/site/contents/public/config/contact.json'',
             req_headers = [(''Authorization'', ''Bearer t0ken''),
               (''Content-Type'', ''application/json''), (''Accept'', ''application/vnd.github+json'')],
             req_body = Some (stringify (JObj
               [(''message'', JStr ''Update contact config''),
                (''content'', JStr (toString_base64 (serialize ''  '' [] sample_document))),
                (''branch'', JStr ''main''),
                (''sha'', JStr ''3d21ec5'')]))\<rparr>] \<and>
   log (snd (commitToGitHub github_env Contact (Some sample_document) (Some ''New hours'')
       (answering not_found created))) =
     [Fetch \<lparr>req_method = ''GET'',
             req_url = ''https://api.github.com/repos/acme/site/contents/public/config/contact.json?ref=main'',
             req_headers = [(''Authorization'', ''Bearer t0ken''),
               (''Content-Type'', ''application/json''), (''Accept'', ''application/vnd.github+json'')],
             req_body = None\<rparr>,
      Fetch \<lparr>req_method = ''PUT'',
             req_url = ''https://api.github.com/repos/acme/site/contents/public/config/contact.json'',
             req_headers = [(''Authorization'', ''Bearer t0ken''),
               (''Content-Type'', ''application/json''), (''Accept'', ''application/vnd.github+json'')],
             req_body = Some (stringify (JObj
               [(''message'', JStr ''New hours''),
                (''content'', JStr (toString_base64 (serialize ''  '' [] sample_document))),
                (''branch'', JStr ''main'')]))\<rparr>]"
proof -
  let ?url = "''https://api.github.com/repos/acme/site/contents/public/config/contact.json''"
  let ?headers = "[(''Authorization'', ''Bearer t0ken''),
    (''Content-Type'', ''application/json''), (''Accept'', ''application/vnd.github+json'')]"
  let ?get = "\<lparr>req_method = ''GET'', req_url = ?url @ ''?ref=main'', req_headers = ?headers,
    req_body = None\<rparr>"
  let ?data = "JObj [(''sha'', JStr ''3d21ec5''),
    (''content'', JStr (toString_base64 (serialize ''  '' [] sample_document)))]"
  have e: "GITHUB_TOKEN github_env = Some ''t0ken''" "''t0ken'' \<noteq> []"
    "GITHUB_OWNER github_env = Some ''acme''" "''acme'' \<noteq> []"
    "GITHUB_REPO github_env = Some ''site''" "''site'' \<noteq> []"
    by (simp_all add: github_env_def default_env_def)
  have b: "GITHUB_BRANCH github_env = ''main''"
    by (simp add: github_env_def default_env_def)
  have u: "?url = ''https://api.github.com/repos/'' @ ''acme'' @ ''/'' @ ''site'' @ ''/contents/'' @
      GITHUB_FILE_PATHS Contact"
    by simp
  have g: "?get = \<lparr>req_method = ''GET'', req_url = ?url @ ''?ref='' @ GITHUB_BRANCH github_env,
      req_headers = ?headers, req_body = None\<rparr>"
    by (simp add: b)
  have h: "?headers = [(''Authorization'', ''Bearer '' @ ''t0ken''),
      (''Content-Type'', ''application/json''), (''Accept'', ''application/vnd.github+json'')]"
    by simp
  have r1: "remote (answering (found ''3d21ec5'' sample_document) created)
      (clock (answering (found ''3d21ec5'' sample_document) created)) ?get =
      Inr (found ''3d21ec5'' sample_document)"
    by (simp add: answering_def offline_world_def)
  have r2: "remote (answering not_found created) (clock (answering not_found created)) ?get =
      Inr not_found"
    by (simp add: answering_def offline_world_def)
  have p: "JSON_parse (res_text (found ''3d21ec5'' sample_document)) = Some ?data"
    by code_simp
  have m1: "Some (JStr ''3d21ec5'') =
      (if ok (found ''3d21ec5'' sample_document) then member ?data ''sha'' else None)"
    by (simp add: ok_samples)
  have m2: "None = (if ok not_found then member JNull ''sha'' else None)"
    by (simp add: ok_samples)
  have c1: "''Update contact config'' =
      (case None :: string option of None \<Rightarrow> ''Update '' @ page_name Contact @ '' config''
       | Some m \<Rightarrow> if m = [] then ''Update '' @ page_name Contact @ '' config'' else m)"
    by simp
  have c2: "''New hours'' =
      (case Some ''New hours'' of None \<Rightarrow> ''Update '' @ page_name Contact @ '' config''
       | Some m \<Rightarrow> if m = [] then ''Update '' @ page_name Contact @ '' config'' else m)"
    by simp
  have l: "log (answering x y) = []" for x y
    by (simp add: answering_def offline_world_def)
  show ?thesis
    using commit_protocol [OF e u h g r1 p m1 c1, of sample_document]
      commit_protocol [OF e u h g r2 _ m2 c2, of sample_document]
    by (simp add: ok_samples b l)
qed

end
